theory Spec2Isabelle
  imports Main "HOL-Library.Word" "HOL-Library.Multiset"
begin

unbundle bit_operations_syntax

section \<open>Go strings and the library functions the package calls\<close>

text \<open>
  A Go string is a sequence of bytes and \<open>len\<close> counts bytes; \<open>string\<close> (a list of
  8-bit \<open>char\<close>) is the same thing. The package itself has four source files
  (\<open>urn.go\<close>, \<open>num_range.go\<close>, \<open>hash.go\<close>, \<open>magnet_link.go\<close>); what it calls from the Go
  standard library (\<open>strings\<close>, \<open>strconv\<close>, \<open>net/url\<close>, \<open>encoding/hex\<close>,
  \<open>encoding/base32\<close>) is modelled in this section, after the library's documented
  behaviour (Go 1.17 and later, \<open>int\<close> 64 bits wide).
\<close>

type_synonym byte = "8 word"

definition ord :: "char \<Rightarrow> nat" where
  "ord c = of_char c"

definition isDigit :: "char \<Rightarrow> bool" where
  "isDigit c \<longleftrightarrow> 48 \<le> ord c \<and> ord c \<le> 57"

definition isUpper :: "char \<Rightarrow> bool" where
  "isUpper c \<longleftrightarrow> 65 \<le> ord c \<and> ord c \<le> 90"

definition isLower :: "char \<Rightarrow> bool" where
  "isLower c \<longleftrightarrow> 97 \<le> ord c \<and> ord c \<le> 122"

definition isASCII :: "char \<Rightarrow> bool" where
  "isASCII c \<longleftrightarrow> ord c < 128"

subsection \<open>strings\<close>

text \<open>
  \<open>strings.Split(s, sep)\<close> for a one-byte separator, the only way the package calls it:
  one more segment than there are separators, and \<open>[""]\<close> for the empty string.
\<close>

fun Split :: "string \<Rightarrow> char \<Rightarrow> string list" where
  "Split [] sep = [[]]"
| "Split (c # cs) sep =
     (if c = sep then [] # Split cs sep
      else (case Split cs sep of
              [] \<Rightarrow> [[c]]
            | seg # segs \<Rightarrow> (c # seg) # segs))"

definition HasPrefix :: "string \<Rightarrow> string \<Rightarrow> bool" where
  "HasPrefix s p \<longleftrightarrow> take (length p) s = p"

definition toLowerASCII :: "char \<Rightarrow> char" where
  "toLowerASCII c = (if isUpper c then char_of (ord c + 32) else c)"

text \<open>
  \<open>strings.ToLower\<close>: a string of ASCII bytes only has its letters \<open>A\<close>..\<open>Z\<close> mapped
  to \<open>a\<close>..\<open>z\<close>; any other string is mapped rune by rune through the Unicode case
  tables. The tables are not part of the package; they are the parameter \<open>ul\<close>
  (what \<open>strings.Map(unicode.ToLower, s)\<close> returns), so every statement below
  holds whatever they contain.
\<close>

definition ToLower :: "(string \<Rightarrow> string) \<Rightarrow> string \<Rightarrow> string" where
  "ToLower ul s = (if list_all isASCII s then map toLowerASCII s else ul s)"

subsection \<open>strconv\<close>

datatype cause =
    ErrSyntax                    \<comment> \<open>\<open>strconv.NumError\<close> wrapping \<open>strconv.ErrSyntax\<close>\<close>
  | ErrRange                     \<comment> \<open>\<open>strconv.NumError\<close> wrapping \<open>strconv.ErrRange\<close>\<close>
  | EscapeError string           \<comment> \<open>\<open>url.EscapeError\<close>\<close>
  | InvalidHostError string      \<comment> \<open>\<open>url.InvalidHostError\<close>\<close>
  | InvalidPort string           \<comment> \<open>\<open>url.Parse\<close>: "invalid port ... after host"\<close>
  | UrlError string              \<comment> \<open>the other failures of \<open>url.Parse\<close>, by message\<close>
  | CorruptInputError nat        \<comment> \<open>\<open>base32.CorruptInputError\<close>\<close>
  | InvalidByteError char        \<comment> \<open>\<open>hex.InvalidByteError\<close>\<close>
  | ErrLength                    \<comment> \<open>\<open>hex.ErrLength\<close>\<close>
  | ErrMalformedNumRange         \<comment> \<open>\<open>errors.New("Malformed num range string")\<close>\<close>
  | ErrMalformedUrn              \<comment> \<open>\<open>ErrMalformedUrn\<close>, wrapped with no further text\<close>
  | ErrMalformedUrnInvalidScheme \<comment> \<open>\<open>ErrMalformedUrn\<close> wrapped as "Invalid scheme"\<close>

text \<open>\<open>1<<64 - 1\<close> and \<open>1<<63\<close>, written out.\<close>

definition maxUint64 :: nat where
  "maxUint64 = 18446744073709551615"

definition cutoffInt64 :: nat where
  "cutoffInt64 = 9223372036854775808"

text \<open>
  The digit loop of \<open>strconv.ParseUint(s, 10, 64)\<close>: a byte that is not a decimal
  digit is a syntax error, a value beyond 64 bits a range error, whichever comes first.
\<close>

fun parseUintLoop :: "nat \<Rightarrow> string \<Rightarrow> cause + nat" where
  "parseUintLoop n [] = Inr n"
| "parseUintLoop n (c # cs) =
     (if \<not> isDigit c then Inl ErrSyntax
      else if n \<ge> maxUint64 div 10 + 1 then Inl ErrRange
      else (let n1 = n * 10 + (ord c - 48)
            in if n1 > maxUint64 then Inl ErrRange else parseUintLoop n1 cs))"

definition ParseUint :: "string \<Rightarrow> cause + nat" where
  "ParseUint s = (if s = [] then Inl ErrSyntax else parseUintLoop 0 s)"

text \<open>
  \<open>strconv.Atoi(s)\<close>, which is \<open>ParseInt(s, 10, 0)\<close> (its fast path for short strings
  gives the same answers): an optional sign, then \<open>ParseUint\<close>, then the check that
  the value fits a signed 64-bit \<open>int\<close>.
\<close>

definition Atoi :: "string \<Rightarrow> cause + int" where
  "Atoi s =
     (case s of
        [] \<Rightarrow> Inl ErrSyntax
      | c # cs \<Rightarrow>
          (let neg = (c = CHR ''-'');
               digits = (if c = CHR ''+'' \<or> c = CHR ''-'' then cs else s)
           in case ParseUint digits of
                Inl ErrSyntax \<Rightarrow> Inl ErrSyntax
              | Inl _ \<Rightarrow> Inl ErrRange
              | Inr un \<Rightarrow>
                  if \<not> neg \<and> un \<ge> cutoffInt64 then Inl ErrRange
                  else if neg \<and> un > cutoffInt64 then Inl ErrRange
                  else Inr (if neg then - int un else int un)))"

text \<open>
  \<open>strconv.Itoa\<close>, the decimal rendering of an \<open>int\<close>: a minus sign for a negative
  number, then the digits, most significant first, with no leading zero.
\<close>

function digitsOf :: "nat \<Rightarrow> string" where
  "digitsOf n =
     (if n < 10 then [char_of (48 + n)]
      else digitsOf (n div 10) @ [char_of (48 + n mod 10)])"
  by pat_completeness auto
termination
  by (relation "measure id") auto

declare digitsOf.simps [simp del]

definition Itoa :: "int \<Rightarrow> string" where
  "Itoa i = (if i < 0 then CHR ''-'' # digitsOf (nat (- i)) else digitsOf (nat i))"

subsection \<open>net/url\<close>

text \<open>
  \<open>strings.Cut\<close>, \<open>strings.Index\<close> and \<open>strings.LastIndex\<close> as \<open>net/url\<close> uses them.
\<close>

definition Cut :: "string \<Rightarrow> char \<Rightarrow> string \<times> string" where
  "Cut s sep = (takeWhile (\<lambda>c. c \<noteq> sep) s, drop 1 (dropWhile (\<lambda>c. c \<noteq> sep) s))"

fun Index :: "string \<Rightarrow> string \<Rightarrow> nat option" where
  "Index [] sub = (if sub = [] then Some 0 else None)"
| "Index (c # cs) sub =
     (if HasPrefix (c # cs) sub then Some 0 else map_option Suc (Index cs sub))"

fun LastIndex :: "string \<Rightarrow> char \<Rightarrow> nat option" where
  "LastIndex [] sep = None"
| "LastIndex (c # cs) sep =
     (case LastIndex cs sep of
        Some i \<Rightarrow> Some (Suc i)
      | None \<Rightarrow> if c = sep then Some 0 else None)"

datatype encoding =
  encodePath | encodeHost | encodeZone | encodeUserPassword | encodeQueryComponent | encodeFragment

definition ishex :: "char \<Rightarrow> bool" where
  "ishex c \<longleftrightarrow> isDigit c \<or> (97 \<le> ord c \<and> ord c \<le> 102) \<or> (65 \<le> ord c \<and> ord c \<le> 70)"

definition unhex :: "char \<Rightarrow> nat" where
  "unhex c =
     (if isDigit c then ord c - 48
      else if 97 \<le> ord c \<and> ord c \<le> 102 then ord c - 97 + 10
      else if 65 \<le> ord c \<and> ord c \<le> 70 then ord c - 65 + 10
      else 0)"

text \<open>
  \<open>shouldEscape(c, encodeHost)\<close>, the only mode in which \<open>unescape\<close> asks: letters,
  digits, the sub-delimiters and brackets a host may hold, and the unreserved marks
  need no escaping.
\<close>

definition shouldEscapeHost :: "char \<Rightarrow> bool" where
  "shouldEscapeHost c \<longleftrightarrow>
     \<not> (isLower c \<or> isUpper c \<or> isDigit c
        \<or> c \<in> set (''!$&()*+,;=:[]<>'' @ [CHR 0x27, CHR 0x22])
        \<or> c \<in> set ''-_.~'')"

text \<open>
  \<open>unescape(s, mode)\<close>. The library checks the whole string first and decodes it in a
  second pass; the first offence in reading order is reported either way. A \<open>%\<close>
  needs two hexadecimal digits after it; \<open>+\<close> becomes a space in a query component.
\<close>

fun unescape :: "string \<Rightarrow> encoding \<Rightarrow> cause + string" where
  "unescape [] mode = Inr []"
| "unescape (c # s) mode =
     (if c = CHR ''%'' then
        (case s of
           h1 # h2 # rest \<Rightarrow>
             if \<not> ishex h1 \<or> \<not> ishex h2 then Inl (EscapeError (take 3 (c # s)))
             else if mode = encodeHost \<and> unhex h1 < 8 \<and> [c, h1, h2] \<noteq> ''%25''
               then Inl (EscapeError [c, h1, h2])
             else if mode = encodeZone \<and> [c, h1, h2] \<noteq> ''%25''
                     \<and> unhex h1 * 16 + unhex h2 \<noteq> 32
                     \<and> shouldEscapeHost (char_of (unhex h1 * 16 + unhex h2))
               then Inl (EscapeError [c, h1, h2])
             else (case unescape rest mode of
                     Inl e \<Rightarrow> Inl e
                   | Inr t \<Rightarrow> Inr (char_of (unhex h1 * 16 + unhex h2) # t))
         | _ \<Rightarrow> Inl (EscapeError (take 3 (c # s))))
      else if c = CHR ''+'' then
        (case unescape s mode of
           Inl e \<Rightarrow> Inl e
         | Inr t \<Rightarrow> Inr ((if mode = encodeQueryComponent then CHR '' '' else CHR ''+'') # t))
      else if (mode = encodeHost \<or> mode = encodeZone) \<and> ord c < 128 \<and> shouldEscapeHost c
        then Inl (InvalidHostError [c])
      else (case unescape s mode of
              Inl e \<Rightarrow> Inl e
            | Inr t \<Rightarrow> Inr (c # t)))"

definition QueryUnescape :: "string \<Rightarrow> cause + string" where
  "QueryUnescape s = unescape s encodeQueryComponent"

text \<open>
  \<open>url.URL\<close>, with the fields \<open>url.Parse\<close> fills from the text; the package reads
  \<open>Scheme\<close> and, through \<open>Query()\<close>, \<open>RawQuery\<close>. The user information is checked
  but not kept, and the hints \<open>RawPath\<close>, \<open>RawFragment\<close> and \<open>OmitHost\<close> are left out.
\<close>

record URL =
  Scheme :: string
  Opaque :: string
  Host :: string
  Path :: string
  ForceQuery :: bool
  RawQuery :: string
  Fragment :: string

definition emptyURL :: URL where
  "emptyURL = \<lparr>Scheme = [], Opaque = [], Host = [], Path = [], ForceQuery = False,
               RawQuery = [], Fragment = []\<rparr>"

definition stringContainsCTLByte :: "string \<Rightarrow> bool" where
  "stringContainsCTLByte s = list_ex (\<lambda>b. ord b < 32 \<or> ord b = 127) s"

text \<open>
  \<open>getScheme\<close>: the loop over the index \<open>i\<close>, with the bytes from \<open>i\<close> on as the
  third argument.
\<close>

fun getSchemeFrom :: "nat \<Rightarrow> string \<Rightarrow> string \<Rightarrow> cause + string \<times> string" where
  "getSchemeFrom i rawURL [] = Inr ([], rawURL)"
| "getSchemeFrom i rawURL (c # cs) =
     (if isLower c \<or> isUpper c then getSchemeFrom (i + 1) rawURL cs
      else if isDigit c \<or> c = CHR ''+'' \<or> c = CHR ''-'' \<or> c = CHR ''.'' then
        (if i = 0 then Inr ([], rawURL) else getSchemeFrom (i + 1) rawURL cs)
      else if c = CHR '':'' then
        (if i = 0 then Inl (UrlError ''missing protocol scheme'')
         else Inr (take i rawURL, drop (i + 1) rawURL))
      else Inr ([], rawURL))"

definition getScheme :: "string \<Rightarrow> cause + string \<times> string" where
  "getScheme rawURL = getSchemeFrom 0 rawURL rawURL"

definition validOptionalPort :: "string \<Rightarrow> bool" where
  "validOptionalPort port =
     (case port of
        [] \<Rightarrow> True
      | c # ds \<Rightarrow> c = CHR '':'' \<and> list_all isDigit ds)"

definition validUserinfo :: "string \<Rightarrow> bool" where
  "validUserinfo s =
     list_all (\<lambda>r. isUpper r \<or> isLower r \<or> isDigit r
                  \<or> r \<in> set (''-._:~!$&()*+,;=%@'' @ [CHR 0x27])) s"

definition parseHost :: "string \<Rightarrow> cause + string" where
  "parseHost host =
     (if HasPrefix host ''['' then
        (case LastIndex host CHR '']'' of
           None \<Rightarrow> Inl (UrlError ''missing ] in host'')
         | Some i \<Rightarrow>
             if \<not> validOptionalPort (drop (i + 1) host) then Inl (InvalidPort (drop (i + 1) host))
             else (case Index (take i host) ''%25'' of
                     Some zone \<Rightarrow>
                       (case unescape (take zone host) encodeHost of
                          Inl e \<Rightarrow> Inl e
                        | Inr host1 \<Rightarrow>
                            (case unescape (drop zone (take i host)) encodeZone of
                               Inl e \<Rightarrow> Inl e
                             | Inr host2 \<Rightarrow>
                                 (case unescape (drop i host) encodeHost of
                                    Inl e \<Rightarrow> Inl e
                                  | Inr host3 \<Rightarrow> Inr (host1 @ host2 @ host3))))
                   | None \<Rightarrow> unescape host encodeHost))
      else (case LastIndex host CHR '':'' of
              Some i \<Rightarrow>
                if \<not> validOptionalPort (drop i host) then Inl (InvalidPort (drop i host))
                else unescape host encodeHost
            | None \<Rightarrow> unescape host encodeHost))"

text \<open>\<open>parseAuthority\<close>, returning the host; the user information is validated only.\<close>

definition parseAuthority :: "string \<Rightarrow> cause + string" where
  "parseAuthority authority =
     (case LastIndex authority CHR ''@'' of
        None \<Rightarrow> parseHost authority
      | Some i \<Rightarrow>
          (case parseHost (drop (i + 1) authority) of
             Inl e \<Rightarrow> Inl e
           | Inr host \<Rightarrow>
               (let userinfo = take i authority in
                if \<not> validUserinfo userinfo then Inl (UrlError ''net/url: invalid userinfo'')
                else if CHR '':'' \<notin> set userinfo then
                  (case unescape userinfo encodeUserPassword of
                     Inl e \<Rightarrow> Inl e
                   | Inr _ \<Rightarrow> Inr host)
                else (let (username, password) = Cut userinfo CHR '':'' in
                      case unescape username encodeUserPassword of
                        Inl e \<Rightarrow> Inl e
                      | Inr _ \<Rightarrow>
                          (case unescape password encodeUserPassword of
                             Inl e \<Rightarrow> Inl e
                           | Inr _ \<Rightarrow> Inr host)))))"

definition setPath :: "URL \<Rightarrow> string \<Rightarrow> cause + URL" where
  "setPath url p =
     (case unescape p encodePath of
        Inl e \<Rightarrow> Inl e
      | Inr path \<Rightarrow> Inr (url\<lparr>Path := path\<rparr>))"

text \<open>\<open>parse(rawURL, viaRequest)\<close> for \<open>viaRequest = false\<close>, as \<open>url.Parse\<close> calls it.\<close>

definition parse :: "(string \<Rightarrow> string) \<Rightarrow> string \<Rightarrow> cause + URL" where
  "parse ul rawURL =
     (if stringContainsCTLByte rawURL
        then Inl (UrlError ''net/url: invalid control character in URL'')
      else if rawURL = ''*'' then Inr (emptyURL\<lparr>Path := ''*''\<rparr>)
      else
        (case getScheme rawURL of
           Inl e \<Rightarrow> Inl e
         | Inr (scheme, rest0) \<Rightarrow>
             (let url0 = emptyURL\<lparr>Scheme := ToLower ul scheme\<rparr>;
                  forceQuery = (rest0 \<noteq> [] \<and> last rest0 = CHR ''?''
                                \<and> count_list rest0 CHR ''?'' = 1);
                  rest = (if forceQuery then butlast rest0 else fst (Cut rest0 CHR ''?''));
                  url = (if forceQuery then url0\<lparr>ForceQuery := True\<rparr>
                         else url0\<lparr>RawQuery := snd (Cut rest0 CHR ''?'')\<rparr>)
              in if \<not> HasPrefix rest ''/'' \<and> Scheme url \<noteq> [] then Inr (url\<lparr>Opaque := rest\<rparr>)
                 else if \<not> HasPrefix rest ''/'' \<and> CHR '':'' \<in> set (fst (Cut rest CHR ''/''))
                   then Inl (UrlError ''first path segment in URL cannot contain colon'')
                 else if (Scheme url \<noteq> [] \<or> \<not> HasPrefix rest ''///'') \<and> HasPrefix rest ''//''
                   then
                     (let authority0 = drop 2 rest;
                          authority = fst (Cut authority0 CHR ''/'');
                          rest' = dropWhile (\<lambda>c. c \<noteq> CHR ''/'') authority0
                      in case parseAuthority authority of
                           Inl e \<Rightarrow> Inl e
                         | Inr host \<Rightarrow> setPath (url\<lparr>Host := host\<rparr>) rest')
                 else setPath url rest)))"

text \<open>
  \<open>url.Parse\<close>: the fragment is cut off first and unescaped last. The library wraps
  every failure in a \<open>url.Error\<close>; the cause is what is kept here.
\<close>

definition urlParse :: "(string \<Rightarrow> string) \<Rightarrow> string \<Rightarrow> cause + URL" where
  "urlParse ul rawURL =
     (let (u, frag) = Cut rawURL CHR ''#'' in
      case parse ul u of
        Inl e \<Rightarrow> Inl e
      | Inr url \<Rightarrow>
          if frag = [] then Inr url
          else (case unescape frag encodeFragment of
                  Inl e \<Rightarrow> Inl e
                | Inr f \<Rightarrow> Inr (url\<lparr>Fragment := f\<rparr>)))"

text \<open>
  \<open>url.Values\<close> is a Go map from a key to the list of its values. It is kept as an
  association list with one entry per key, in the order the keys were first seen;
  \<open>m[key] = append(m[key], value)\<close> is \<open>addValue\<close>. The order of the list is not
  something a Go program can observe: see \<open>ParseMagnetLink\<close>.
\<close>

type_synonym Values = "(string \<times> string list) list"

fun addValue :: "Values \<Rightarrow> string \<Rightarrow> string \<Rightarrow> Values" where
  "addValue [] key v = [(key, [v])]"
| "addValue ((k, vs) # m) key v =
     (if k = key then (k, vs @ [v]) # m else (k, vs) # addValue m key v)"

text \<open>
  The loop of \<open>url.ParseQuery\<close> over the pieces between \<open>&\<close>: a piece with a
  semicolon, an empty piece, and a piece whose key or value does not unescape are
  skipped. \<open>URL.Query\<close> drops the error \<open>ParseQuery\<close> reports for the skipped ones.
\<close>

fun parseQuery :: "Values \<Rightarrow> string list \<Rightarrow> Values" where
  "parseQuery m [] = m"
| "parseQuery m (piece # query) =
     (if CHR '';'' \<in> set piece then parseQuery m query
      else if piece = [] then parseQuery m query
      else (case QueryUnescape (fst (Cut piece CHR ''='')) of
              Inl _ \<Rightarrow> parseQuery m query
            | Inr key \<Rightarrow>
                (case QueryUnescape (snd (Cut piece CHR ''='')) of
                   Inl _ \<Rightarrow> parseQuery m query
                 | Inr v \<Rightarrow> parseQuery (addValue m key v) query)))"

definition Query :: "URL \<Rightarrow> Values" where
  "Query u = parseQuery [] (Split (RawQuery u) CHR ''&'')"

subsection \<open>encoding/hex\<close>

definition fromHexChar :: "char \<Rightarrow> byte option" where
  "fromHexChar c = (if ishex c then Some (of_nat (unhex c)) else None)"

text \<open>
  \<open>hex.DecodeString\<close>: two digits make a byte; an odd digit left over is reported
  as a bad byte if it is no digit and as a bad length otherwise.
\<close>

fun hexDecodeString :: "string \<Rightarrow> cause + byte list" where
  "hexDecodeString [] = Inr []"
| "hexDecodeString [p] =
     (if fromHexChar p = None then Inl (InvalidByteError p) else Inl ErrLength)"
| "hexDecodeString (p # q # src) =
     (case fromHexChar p of
        None \<Rightarrow> Inl (InvalidByteError p)
      | Some a \<Rightarrow>
          (case fromHexChar q of
             None \<Rightarrow> Inl (InvalidByteError q)
           | Some b \<Rightarrow>
               (case hexDecodeString src of
                  Inl e \<Rightarrow> Inl e
                | Inr dst \<Rightarrow> Inr ((push_bit 4 a OR b) # dst))))"

subsection \<open>encoding/base32\<close>

text \<open>The decode map of \<open>base32.StdEncoding\<close>: \<open>A\<close>..\<open>Z\<close> are 0..25, \<open>2\<close>..\<open>7\<close> are 26..31.\<close>

definition decodeMap :: "char \<Rightarrow> byte option" where
  "decodeMap c =
     (if isUpper c then Some (of_nat (ord c - 65))
      else if 50 \<le> ord c \<and> ord c \<le> 55 then Some (of_nat (ord c - 50 + 26))
      else None)"

text \<open>
  One quantum of \<open>Encoding.decode\<close>, the loop \<open>for j := 0; j < 8;\<close>: up to eight
  symbols are read into \<open>dbuf\<close>; \<open>olen\<close> is the length of the whole input and \<open>src\<close>
  what is left of it. The result is the symbols read and whether padding ended the
  input.
\<close>

definition paddingError :: "nat \<Rightarrow> nat \<Rightarrow> string \<Rightarrow> cause option" where
  "paddingError olen j src =
     (if length src + j < 8 - 1 then Some (CorruptInputError olen)
      else (case filter (\<lambda>k. k < length src \<and> src ! k \<noteq> CHR ''='') [0..<8 - 1 - j] of
              k # _ \<Rightarrow> Some (CorruptInputError (olen - length src + k - 1))
            | [] \<Rightarrow>
                if j = 1 \<or> j = 3 \<or> j = 6 then Some (CorruptInputError (olen - length src - 1))
                else None))"

fun readQuantum :: "nat \<Rightarrow> byte list \<Rightarrow> nat \<Rightarrow> string \<Rightarrow> cause + byte list \<times> bool" where
  "readQuantum olen dbuf j [] =
     (if j < 8 then Inl (CorruptInputError (olen - j)) else Inr (dbuf, False))"
| "readQuantum olen dbuf j (c # src) =
     (if j < 8 then
        (if c = CHR ''='' \<and> j \<ge> 2 \<and> length src < 8 then
           (case paddingError olen j src of
              Some e \<Rightarrow> Inl e
            | None \<Rightarrow> Inr (dbuf, True))
         else (case decodeMap c of
                 None \<Rightarrow> Inl (CorruptInputError (olen - length src - 1))
               | Some v \<Rightarrow> readQuantum olen (dbuf @ [v]) (j + 1) src))
      else Inr (dbuf, False))"

text \<open>
  Packing eight 5-bit symbols into five bytes; \<open>dbuf\<close> is filled up with zeros as the
  array in the library is, and \<open>dlen\<close> symbols give 5, 4, 3, 2 or 1 bytes.
\<close>

definition packQuantum :: "byte list \<Rightarrow> byte list" where
  "packQuantum dbuf =
     (let d = dbuf @ replicate (8 - length dbuf) 0;
          dlen = length dbuf;
          n = (if dlen = 8 then 5 else if dlen = 7 then 4 else if dlen = 5 then 3
               else if dlen = 4 then 2 else if dlen = 2 then 1 else 0)
      in take n
           [push_bit 3 (d ! 0) OR drop_bit 2 (d ! 1),
            push_bit 6 (d ! 1) OR push_bit 1 (d ! 2) OR drop_bit 4 (d ! 3),
            push_bit 4 (d ! 3) OR drop_bit 1 (d ! 4),
            push_bit 7 (d ! 4) OR push_bit 2 (d ! 5) OR drop_bit 3 (d ! 6),
            push_bit 5 (d ! 6) OR d ! 7])"

function base32Decode :: "nat \<Rightarrow> string \<Rightarrow> cause + byte list" where
  "base32Decode olen src =
     (if src = [] then Inr []
      else (case readQuantum olen [] 0 src of
              Inl e \<Rightarrow> Inl e
            | Inr (dbuf, end) \<Rightarrow>
                if end then Inr (packQuantum dbuf)
                else (case base32Decode olen (drop 8 src) of
                        Inl e \<Rightarrow> Inl e
                      | Inr dst \<Rightarrow> Inr (packQuantum dbuf @ dst))))"
  by pat_completeness auto
termination
  by (relation "measure (\<lambda>(olen, src). length src)") auto

declare base32Decode.simps [simp del]

text \<open>\<open>base32.StdEncoding.DecodeString\<close>: carriage returns and line feeds are dropped first.\<close>

definition base32DecodeString :: "string \<Rightarrow> cause + byte list" where
  "base32DecodeString s =
     (let buf = filter (\<lambda>c. c \<noteq> CHR 0x0D \<and> c \<noteq> CHR 0x0A) s
      in base32Decode (length buf) buf)"

section \<open>urn.go\<close>

record Urn =
  Nid :: string
  Nss :: string

text \<open>\<open>Urn.String\<close>: \<open>fmt.Sprintf("urn:%v:%v", u.Nid, u.Nss)\<close>.\<close>

definition String :: "Urn \<Rightarrow> string" where
  "String u = ''urn:'' @ Nid u @ '':'' @ Nss u"

definition ParseUrn :: "(string \<Rightarrow> string) \<Rightarrow> string \<Rightarrow> cause + Urn" where
  "ParseUrn ul urn =
     (let strs = Split urn CHR '':'' in
      if length strs \<noteq> 3 then Inl ErrMalformedUrn
      else (let scheme = strs ! 0; nid = strs ! 1; nss = strs ! 2 in
            if ToLower ul scheme \<noteq> ''urn'' then Inl ErrMalformedUrnInvalidScheme
            else Inr \<lparr>Nid = nid, Nss = nss\<rparr>))"

section \<open>num\_range.go\<close>

record NumRange =
  Start :: int
  End :: int
  IncludeStart :: bool
  IncludeEnd :: bool

text \<open>The zero value of the named result \<open>r\<close>.\<close>

definition zeroNumRange :: NumRange where
  "zeroNumRange = \<lparr>Start = 0, End = 0, IncludeStart = False, IncludeEnd = False\<rparr>"

definition NewSingleNumRange :: "int \<Rightarrow> NumRange" where
  "NewSingleNumRange num = \<lparr>Start = num, End = num, IncludeStart = True, IncludeEnd = True\<rparr>"

text \<open>
  \<open>ParseNumRangeFromString\<close> has the named results \<open>(r NumRange, err error)\<close> and
  returns both; \<open>None\<close> is the \<open>nil\<close> error. In the two-segment branch nothing
  returns after \<open>r.IncludeEnd = true\<close>, so control reaches the assignment of the
  "Malformed num range string" error below the conditional.
\<close>

definition ParseNumRangeFromString :: "string \<Rightarrow> NumRange \<times> cause option" where
  "ParseNumRangeFromString s =
     (let strs = Split s CHR ''-''; r = zeroNumRange in
      if length strs = 1 then
        (case Atoi s of
           Inl err \<Rightarrow> (r, Some err)
         | Inr num \<Rightarrow>
             (r\<lparr>Start := num, End := num, IncludeStart := True, IncludeEnd := True\<rparr>, None))
      else if length strs = 2 then
        (case Atoi (strs ! 0) of
           Inl err \<Rightarrow> (r, Some err)
         | Inr num \<Rightarrow>
             (let r = r\<lparr>Start := num, IncludeStart := True\<rparr> in
              case Atoi (strs ! 1) of
                Inl err \<Rightarrow> (r, Some err)
              | Inr num \<Rightarrow>
                  (let r = r\<lparr>End := num, IncludeEnd := True\<rparr> in
                   (r, Some ErrMalformedNumRange))))
      else (r, Some ErrMalformedNumRange))"

section \<open>hash.go\<close>

definition HashSHA1 :: string where
  "HashSHA1 = ''sha1''"

definition HashSHA256 :: string where
  "HashSHA256 = ''sha256''"

record HashValue =
  Type :: string
  Value :: "byte list"

section \<open>magnet\_link.go\<close>

text \<open>
  The two error values of the file. Every error built with
  \<open>fmt.Errorf("%w: ...", ErrMalformedMagnetLink, ...)\<close> wraps \<open>ErrMalformedMagnetLink\<close>;
  the text after the colon, and the cause printed into it, is the \<open>reason\<close>.
  \<open>ErrWrongMagnetLinkType\<close> is wrapped once, as "No torrent".
\<close>

datatype reason =
    InvalidUri cause                \<comment> \<open>the error of \<open>url.Parse\<close>\<close>
  | InvalidScheme                   \<comment> \<open>"Invalid scheme"\<close>
  | InvalidXt cause                 \<comment> \<open>"Invalid xt [...]"\<close>
  | InvalidXl cause                 \<comment> \<open>"Invalid xl [...]"\<close>
  | InvalidAs cause                 \<comment> \<open>"Invalid as [...]"\<close>
  | InvalidTr cause                 \<comment> \<open>"Invalid tr [...]"\<close>
  | InvalidSo cause                 \<comment> \<open>"Invalid so [...]"\<close>
  | InvalidExperimentalParameter    \<comment> \<open>"Invalid experimental parameter"\<close>
  | UnknownParameters               \<comment> \<open>"Uknown parameters"\<close>
  | BadLength                       \<comment> \<open>"Cannot decode btih [Bad length]"\<close>
  | CannotDecodeBtih cause          \<comment> \<open>"Cannot decode btih [...]"\<close>

datatype error =
    ErrMalformedMagnetLink reason
  | ErrWrongMagnetLinkType

text \<open>
  \<open>MagnetLink\<close>. A \<open>nil\<close> slice is the empty list and a \<open>nil\<close> map the empty map:
  the package only appends to the one and reads and writes keys of the other.
\<close>

record MagnetLink =
  Dn :: "string list"
  Xt :: "Urn list"
  Xl :: "int list"
  As :: "string list"
  Xs :: "string list"
  Kt :: "string list"
  Mt :: "string list"
  Tr :: "string list"
  So :: "NumRange list"
  Exps :: "string \<rightharpoonup> string list"
  Unknowns :: "string \<rightharpoonup> string list"

definition zeroMagnetLink :: MagnetLink where
  "zeroMagnetLink =
     \<lparr>Dn = [], Xt = [], Xl = [], As = [], Xs = [], Kt = [], Mt = [], Tr = [], So = [],
      Exps = Map.empty, Unknowns = Map.empty\<rparr>"

text \<open>
  Options. \<open>set\<close> is unexported, so the values of the interface
  \<open>MagnetLinkParseOption\<close> are those \<open>WithMagnetLinkParseStrictOption\<close> builds, and
  \<open>nil\<close> (\<open>None\<close>), which \<open>ParseMagnetLink\<close> skips.
\<close>

datatype MagnetLinkParseOption = WithMagnetLinkParseStrictOption bool

record magnetLinkParseOption =
  Strict :: bool

fun applyOptions ::
  "magnetLinkParseOption \<Rightarrow> MagnetLinkParseOption option list \<Rightarrow> magnetLinkParseOption" where
  "applyOptions option [] = option"
| "applyOptions option (None # opts) = applyOptions option opts"
| "applyOptions option (Some (WithMagnetLinkParseStrictOption strict) # opts) =
     applyOptions (option\<lparr>Strict := strict\<rparr>) opts"

definition checkIsMagnetLinkXTParameter :: "string \<Rightarrow> bool" where
  "checkIsMagnetLinkXTParameter key =
     (if \<not> HasPrefix key ''xt'' then False
      else if key = ''xt'' then True
      else if length key < 4 then False
      else if key ! 2 \<noteq> CHR ''.'' then False
      else (case Atoi (drop 3 key) of Inl _ \<Rightarrow> False | Inr _ \<Rightarrow> True))"

text \<open>
  The loops \<open>for _, value := range values\<close> of \<open>ParseMagnetLink\<close>: each value is
  converted and appended; the first failure ends the loop with its error.
\<close>

fun appendEach :: "('a \<Rightarrow> cause + 'b) \<Rightarrow> 'b list \<Rightarrow> 'a list \<Rightarrow> cause + 'b list" where
  "appendEach f acc [] = Inr acc"
| "appendEach f acc (v # values) =
     (case f v of
        Inl err \<Rightarrow> Inl err
      | Inr x \<Rightarrow> appendEach f (acc @ [x]) values)"

text \<open>What the \<open>so\<close> loop does with one segment: \<open>err != nil\<close> decides, whatever \<open>r\<close> holds.\<close>

definition numRangeOf :: "string \<Rightarrow> cause + NumRange" where
  "numRangeOf s =
     (case ParseNumRangeFromString s of
        (numRange, Some err) \<Rightarrow> Inl err
      | (numRange, None) \<Rightarrow> Inr numRange)"

definition appendTo ::
  "(string \<rightharpoonup> string list) \<Rightarrow> string \<Rightarrow> string list \<Rightarrow> (string \<rightharpoonup> string list)" where
  "appendTo m key values = m(key \<mapsto> (case m key of None \<Rightarrow> [] | Some vs \<Rightarrow> vs) @ values)"

text \<open>
  The body of \<open>for key, values := range q\<close>: one key of the query with its values,
  applied to the link built so far.
\<close>

definition parseParameter ::
  "(string \<Rightarrow> string) \<Rightarrow> magnetLinkParseOption \<Rightarrow> MagnetLink \<Rightarrow> string \<times> string list
     \<Rightarrow> error + MagnetLink" where
  "parseParameter ul option magnetLink kv =
     (let key = ToLower ul (fst kv); values = snd kv in
      if key = ''dn'' then Inr (magnetLink\<lparr>Dn := Dn magnetLink @ values\<rparr>)
      else if checkIsMagnetLinkXTParameter key then
        (case appendEach (ParseUrn ul) (Xt magnetLink) values of
           Inl err \<Rightarrow> Inl (ErrMalformedMagnetLink (InvalidXt err))
         | Inr xt \<Rightarrow> Inr (magnetLink\<lparr>Xt := xt\<rparr>))
      else if key = ''xl'' then
        (case appendEach Atoi (Xl magnetLink) values of
           Inl err \<Rightarrow> Inl (ErrMalformedMagnetLink (InvalidXl err))
         | Inr xl \<Rightarrow> Inr (magnetLink\<lparr>Xl := xl\<rparr>))
      else if key = ''as'' then
        (case appendEach QueryUnescape (As magnetLink) values of
           Inl err \<Rightarrow> Inl (ErrMalformedMagnetLink (InvalidAs err))
         | Inr as \<Rightarrow> Inr (magnetLink\<lparr>As := as\<rparr>))
      else if key = ''xs'' then Inr (magnetLink\<lparr>Xs := Xs magnetLink @ values\<rparr>)
      else if key = ''kt'' then Inr (magnetLink\<lparr>Kt := Kt magnetLink @ values\<rparr>)
      else if key = ''mt'' then Inr (magnetLink\<lparr>Mt := Mt magnetLink @ values\<rparr>)
      else if key = ''tr'' then
        (case appendEach QueryUnescape (Tr magnetLink) values of
           Inl err \<Rightarrow> Inl (ErrMalformedMagnetLink (InvalidTr err))
         | Inr tr \<Rightarrow> Inr (magnetLink\<lparr>Tr := tr\<rparr>))
      else if key = ''so'' then
        (case appendEach numRangeOf (So magnetLink)
                (concat (map (\<lambda>v. Split v CHR '','') values)) of
           Inl err \<Rightarrow> Inl (ErrMalformedMagnetLink (InvalidSo err))
         | Inr so \<Rightarrow> Inr (magnetLink\<lparr>So := so\<rparr>))
      else if HasPrefix key ''x.'' then
        (if length key \<le> 2 then Inl (ErrMalformedMagnetLink InvalidExperimentalParameter)
         else Inr (magnetLink\<lparr>Exps := appendTo (Exps magnetLink) (drop 2 key) values\<rparr>))
      else if Strict option then Inl (ErrMalformedMagnetLink UnknownParameters)
      else Inr (magnetLink\<lparr>Unknowns := appendTo (Unknowns magnetLink) key values\<rparr>))"


fun parseParameters ::
  "(string \<Rightarrow> string) \<Rightarrow> magnetLinkParseOption \<Rightarrow> MagnetLink \<Rightarrow> Values
     \<Rightarrow> error + MagnetLink" where
  "parseParameters ul option magnetLink [] = Inr magnetLink"
| "parseParameters ul option magnetLink (kv # q) =
     (case parseParameter ul option magnetLink kv of
        Inl err \<Rightarrow> Inl err
      | Inr magnetLink' \<Rightarrow> parseParameters ul option magnetLink' q)"

text \<open>
  \<open>ParseMagnetLink\<close>. Go leaves the order in which \<open>range\<close> visits a map
  unspecified, and it changes from one run to the next. The parameter \<open>order\<close> is
  that order: it rearranges the entries of the query before the loop visits them.
  A valid order is a permutation of the entries.
\<close>

definition validOrder :: "(Values \<Rightarrow> Values) \<Rightarrow> bool" where
  "validOrder order \<longleftrightarrow> (\<forall>q. mset (order q) = mset q)"

definition ParseMagnetLink ::
  "(string \<Rightarrow> string) \<Rightarrow> (Values \<Rightarrow> Values) \<Rightarrow> string \<Rightarrow> MagnetLinkParseOption option list
     \<Rightarrow> error + MagnetLink" where
  "ParseMagnetLink ul order uri opts =
     (let option = applyOptions \<lparr>Strict = False\<rparr> opts in
      case urlParse ul uri of
        Inl err \<Rightarrow> Inl (ErrMalformedMagnetLink (InvalidUri err))
      | Inr u \<Rightarrow>
          if ToLower ul (Scheme u) \<noteq> ''magnet'' then Inl (ErrMalformedMagnetLink InvalidScheme)
          else parseParameters ul option zeroMagnetLink (order (Query u)))"

text \<open>
  \<open>TorrentMagnetLink\<close> holds a pointer to the link it was made from; the link is
  not changed after \<open>ParseMagnetLink\<close> returns, so the record holds its value.
\<close>

record TorrentMagnetLink =
  Link :: MagnetLink
  InfoHashs :: "HashValue list"

text \<open>The \<open>switch len(xt.Nss)\<close> of \<open>AsTorrent\<close> with the error check that follows it.\<close>

definition decodeBtih :: "string \<Rightarrow> error + HashValue" where
  "decodeBtih nss =
     (let decoded =
        (if length nss = 32 then Some (HashSHA1, base32DecodeString nss)
         else if length nss = 40 then Some (HashSHA1, hexDecodeString nss)
         else if length nss = 56 then Some (HashSHA256, base32DecodeString nss)
         else if length nss = 64 then Some (HashSHA256, hexDecodeString nss)
         else None)
      in case decoded of
           None \<Rightarrow> Inl (ErrMalformedMagnetLink BadLength)
         | Some (type, Inl err) \<Rightarrow> Inl (ErrMalformedMagnetLink (CannotDecodeBtih err))
         | Some (type, Inr v) \<Rightarrow> Inr \<lparr>Type = type, Value = v\<rparr>)"

text \<open>The loop \<open>for _, xt := range l.Xt\<close>, with the hashes collected so far.\<close>

fun collectInfoHashs ::
  "(string \<Rightarrow> string) \<Rightarrow> HashValue list \<Rightarrow> Urn list \<Rightarrow> error + HashValue list" where
  "collectInfoHashs ul infoHashs [] = Inr infoHashs"
| "collectInfoHashs ul infoHashs (xt # xts) =
     (if ToLower ul (Nid xt) = ''btih'' then
        (case decodeBtih (Nss xt) of
           Inl err \<Rightarrow> Inl err
         | Inr hashValue \<Rightarrow> collectInfoHashs ul (infoHashs @ [hashValue]) xts)
      else collectInfoHashs ul infoHashs xts)"

definition AsTorrent :: "(string \<Rightarrow> string) \<Rightarrow> MagnetLink \<Rightarrow> error + TorrentMagnetLink" where
  "AsTorrent ul l =
     (case collectInfoHashs ul [] (Xt l) of
        Inl err \<Rightarrow> Inl err
      | Inr infoHashs \<Rightarrow>
          if length infoHashs = 0 then Inl ErrWrongMagnetLinkType
          else Inr \<lparr>Link = l, InfoHashs = infoHashs\<rparr>)"

definition ParseTorrentMagnetLink ::
  "(string \<Rightarrow> string) \<Rightarrow> (Values \<Rightarrow> Values) \<Rightarrow> string \<Rightarrow> MagnetLinkParseOption option list
     \<Rightarrow> error + TorrentMagnetLink" where
  "ParseTorrentMagnetLink ul order uri opts =
     (case ParseMagnetLink ul order uri opts of
        Inl err \<Rightarrow> Inl err
      | Inr magnetLink \<Rightarrow> AsTorrent ul magnetLink)"

text \<open>
  The composition as the specification words it: parse, then specialize, and a
  failure at either stage is the result. It is here to be compared with
  \<open>ParseTorrentMagnetLink\<close> above.
\<close>

definition andThen :: "'e + 'a \<Rightarrow> ('a \<Rightarrow> 'e + 'b) \<Rightarrow> 'e + 'b" where
  "andThen r f = (case r of Inl e \<Rightarrow> Inl e | Inr x \<Rightarrow> f x)"

definition parseThenSpecialize ::
  "(string \<Rightarrow> string) \<Rightarrow> (Values \<Rightarrow> Values) \<Rightarrow> string \<Rightarrow> MagnetLinkParseOption option list
     \<Rightarrow> error + TorrentMagnetLink" where
  "parseThenSpecialize ul order uri opts =
     andThen (ParseMagnetLink ul order uri opts) (AsTorrent ul)"

section \<open>Properties of the library model\<close>

lemma ord_digit: "(d::nat) < 10 \<Longrightarrow> ord (char_of (48 + d)) = 48 + d"
  by (simp add: ord_def)

lemma isDigit_digit: "(d::nat) < 10 \<Longrightarrow> isDigit (char_of (48 + d))"
  by (simp add: isDigit_def ord_digit)

lemma isDigit_not_sign: "isDigit c \<Longrightarrow> c \<noteq> CHR ''-'' \<and> c \<noteq> CHR ''+''"
  by (auto simp: isDigit_def ord_def)

lemma digitsOf_all_digits: "list_all isDigit (digitsOf n)"
proof (induction n rule: digitsOf.induct)
  case (1 n)
  show ?case
  proof (cases "n < 10")
    case True
    then show ?thesis by (subst digitsOf.simps) (simp add: isDigit_digit)
  next
    case False
    with 1 show ?thesis by (subst digitsOf.simps) (simp add: isDigit_digit)
  qed
qed

lemma digitsOf_nonempty: "digitsOf n \<noteq> []"
  by (subst digitsOf.simps) simp

lemma digits_no_hyphen: "list_all isDigit s \<Longrightarrow> CHR ''-'' \<notin> set s"
  by (induction s) (auto dest: isDigit_not_sign)

text \<open>The digit loop run over two strings in a row is the loop run over their concatenation.\<close>

lemma parseUintLoop_append:
  "parseUintLoop n (xs @ ys) =
     (case parseUintLoop n xs of Inl e \<Rightarrow> Inl e | Inr m \<Rightarrow> parseUintLoop m ys)"
  by (induction xs arbitrary: n) (auto simp: Let_def)

lemma parseUintLoop_digitsOf:
  "n \<le> maxUint64 \<Longrightarrow> parseUintLoop 0 (digitsOf n) = Inr n"
proof (induction n rule: digitsOf.induct)
  case (1 n)
  show ?case
  proof (cases "n < 10")
    case True
    then show ?thesis
      by (subst digitsOf.simps) (simp add: isDigit_digit ord_digit maxUint64_def)
  next
    case False
    have le: "n div 10 \<le> maxUint64" using "1.prems" by simp
    have ih: "parseUintLoop 0 (digitsOf (n div 10)) = Inr (n div 10)"
      using "1.IH" False le by simp
    have small: "\<not> n div 10 \<ge> maxUint64 div 10 + 1"
      using "1.prems" by (simp add: maxUint64_def)
    have recompose: "n div 10 * 10 + (48 + n mod 10 - 48) = n" by simp
    show ?thesis
      using False "1.prems" small
      by (subst digitsOf.simps)
         (simp add: parseUintLoop_append ih isDigit_digit ord_digit recompose)
  qed
qed

lemma Atoi_digitsOf:
  assumes "n < cutoffInt64"
  shows "Atoi (digitsOf n) = Inr (int n)"
proof -
  obtain c cs where s: "digitsOf n = c # cs"
    using digitsOf_nonempty by (cases "digitsOf n") auto
  have "isDigit c" using digitsOf_all_digits [of n] s by simp
  then have c: "c \<noteq> CHR ''-''" "c \<noteq> CHR ''+''" using isDigit_not_sign by auto
  have "n \<le> maxUint64" using assms by (simp add: cutoffInt64_def maxUint64_def)
  then have "ParseUint (c # cs) = Inr n"
    using parseUintLoop_digitsOf [of n] s by (simp add: ParseUint_def)
  then show ?thesis using c assms by (simp add: Atoi_def s)
qed

lemma Atoi_errors: "Atoi s = Inl e \<Longrightarrow> e = ErrSyntax \<or> e = ErrRange"
  by (auto simp: Atoi_def Let_def split: list.splits sum.splits cause.splits if_splits)

lemma Split_no_sep: "sep \<notin> set s \<Longrightarrow> Split s sep = [s]"
  by (induction s) auto

lemma Split_append_sep:
  "sep \<notin> set a \<Longrightarrow> Split (a @ sep # b) sep = a # Split b sep"
  by (induction a) auto

lemma Split_nonempty: "Split s sep \<noteq> []"
  by (induction s) (auto split: list.splits)

lemma length_Split: "length (Split s sep) = Suc (count_list s sep)"
  by (induction s) (auto split: list.splits simp: Split_nonempty)

lemmas eval_strconv =
  Atoi_def ParseUint_def isDigit_def ord_def maxUint64_def cutoffInt64_def

lemma eq_char_of_iff: "c = char_of (n::nat) \<longleftrightarrow> take_bit 8 n = of_char c"
  using char_of_eq_iff [of n c] by auto

lemmas eval_strings =
  ToLower_def isASCII_def isUpper_def toLowerASCII_def HasPrefix_def ord_def char_of_eq_iff
  eq_char_of_iff

lemmas eval_url =
  urlParse_def parse_def Cut_def stringContainsCTLByte_def getScheme_def isLower_def
  emptyURL_def parseAuthority_def parseHost_def validOptionalPort_def setPath_def
  shouldEscapeHost_def ishex_def unhex_def QueryUnescape_def Query_def isDigit_def



lemma Itoa_examples:
  "Itoa 1 = ''1''" "Itoa 2 = ''2''" "Itoa 42 = ''42''" "Itoa (- 5) = ''-5''"
  by (simp_all add: Itoa_def digitsOf.simps char_of_eq_iff)

section \<open>Properties of num\_range.go\<close>

lemma ParseNumRange_two_segments_never_succeed:
  "length (Split s CHR ''-'') = 2 \<Longrightarrow> snd (ParseNumRangeFromString s) \<noteq> None"
  by (simp add: ParseNumRangeFromString_def Let_def split: sum.splits)

text \<open>
  C1. The claim: for all integers \<open>a\<close> and \<open>b\<close>, parsing \<open>"a-b"\<close> succeeds with the
  range from \<open>a\<close> to \<open>b\<close>, both bounds included. The code computes that range and
  then returns it together with the "Malformed num range string" error, because the
  two-segment branch does not return: at \<open>"1-2"\<close> the call fails.
\<close>

theorem ParseNumRange_pair_fails:
  "ParseNumRangeFromString (Itoa 1 @ ''-'' @ Itoa 2) =
     (\<lparr>Start = 1, End = 2, IncludeStart = True, IncludeEnd = True\<rparr>,
      Some ErrMalformedNumRange)"
  by (simp add: Itoa_examples ParseNumRangeFromString_def zeroNumRange_def eval_strconv)

text \<open>
  C2, as the code has it. For every \<open>n\<close> from \<open>0\<close> to \<open>2\<^sup>6\<^sup>3 - 1\<close>, parsing the decimal
  rendering of \<open>n\<close> succeeds with the single-point range \<open>{n, n, true, true}\<close>; and a
  hyphen-free input that \<open>strconv.Atoi\<close> rejects fails with that integer-parse error
  (a syntax or a range error) and the zero range.
\<close>

theorem ParseNumRange_single:
  "(0 \<le> n \<and> n < 9223372036854775808 \<longrightarrow>
      ParseNumRangeFromString (Itoa n) =
        (\<lparr>Start = n, End = n, IncludeStart = True, IncludeEnd = True\<rparr>, None)) \<and>
   (CHR ''-'' \<notin> set s \<and> Atoi s = Inl e \<longrightarrow>
      ParseNumRangeFromString s = (zeroNumRange, Some e) \<and> (e = ErrSyntax \<or> e = ErrRange))"
proof (intro conjI impI)
  assume n: "0 \<le> n \<and> n < 9223372036854775808"
  then have it: "Itoa n = digitsOf (nat n)" by (simp add: Itoa_def)
  have "CHR ''-'' \<notin> set (digitsOf (nat n))"
    using digitsOf_all_digits digits_no_hyphen by blast
  then have seg: "Split (Itoa n) CHR ''-'' = [Itoa n]"
    by (simp add: it Split_no_sep)
  have "nat n < cutoffInt64" using n by (simp add: cutoffInt64_def nat_less_iff)
  then have "Atoi (Itoa n) = Inr n"
    using Atoi_digitsOf [of "nat n"] n by (simp add: it)
  then show "ParseNumRangeFromString (Itoa n) =
      (\<lparr>Start = n, End = n, IncludeStart = True, IncludeEnd = True\<rparr>, None)"
    by (simp add: ParseNumRangeFromString_def seg zeroNumRange_def)
next
  assume h: "CHR ''-'' \<notin> set s \<and> Atoi s = Inl e"
  then have "Split s CHR ''-'' = [s]" by (simp add: Split_no_sep)
  then show "ParseNumRangeFromString s = (zeroNumRange, Some e)"
    using h by (simp add: ParseNumRangeFromString_def)
  show "e = ErrSyntax \<or> e = ErrRange" using h Atoi_errors by blast
qed

theorem ParseNumRange_single_witness:
  "(0::int) \<le> 42 \<and> (42::int) < 9223372036854775808 \<and>
   ParseNumRangeFromString (Itoa 42) =
     (\<lparr>Start = 42, End = 42, IncludeStart = True, IncludeEnd = True\<rparr>, None) \<and>
   CHR ''-'' \<notin> set ''4x'' \<and> Atoi ''4x'' = Inl ErrSyntax \<and>
   ParseNumRangeFromString ''4x'' = (zeroNumRange, Some ErrSyntax)"
proof -
  have a: "Atoi ''4x'' = Inl ErrSyntax" by (simp add: eval_strconv)
  show ?thesis
    using ParseNumRange_single [of 42 "''4x''" ErrSyntax] a by simp
qed

text \<open>
  C2 as stated includes negative \<open>n\<close>. The rendering of \<open>-5\<close> starts with the
  separator, so it splits into an empty segment and \<open>"5"\<close>, and the empty segment is
  not an integer.
\<close>

theorem ParseNumRange_negative_counterexample:
  "Itoa (- 5) = ''-5'' \<and>
   ParseNumRangeFromString (Itoa (- 5)) = (zeroNumRange, Some ErrSyntax) \<and>
   ParseNumRangeFromString (Itoa (- 5)) \<noteq>
     (\<lparr>Start = - 5, End = - 5, IncludeStart = True, IncludeEnd = True\<rparr>, None)"
  by (simp add: Itoa_examples ParseNumRangeFromString_def zeroNumRange_def eval_strconv)

section \<open>Properties of urn.go\<close>

lemma ToLower_urn: "ToLower ul ''urn'' = ''urn''"
  by (simp add: eval_strings)

lemma Split_three:
  assumes "CHR '':'' \<notin> set a" "CHR '':'' \<notin> set b" "CHR '':'' \<notin> set c"
  shows "Split (a @ CHR '':'' # b @ CHR '':'' # c) CHR '':'' = [a, b, c]"
  using assms by (simp add: Split_append_sep Split_no_sep)

text \<open>
  C7. A string \<open>a:b:c\<close> whose three segments hold no colon parses to
  \<open>{Nid = b, Nss = c}\<close>, both taken as they are, when \<open>a\<close> lower-cases to \<open>urn\<close>, and
  fails with the malformed-URN error ("Invalid scheme") when it does not; a string
  that does not split into exactly three segments fails with the malformed-URN error.
\<close>

theorem ParseUrn_three_segments:
  "(CHR '':'' \<notin> set a \<and> CHR '':'' \<notin> set b \<and> CHR '':'' \<notin> set c \<and> ToLower ul a = ''urn'' \<longrightarrow>
      ParseUrn ul (a @ '':'' @ b @ '':'' @ c) = Inr \<lparr>Nid = b, Nss = c\<rparr>) \<and>
   (CHR '':'' \<notin> set a \<and> CHR '':'' \<notin> set b \<and> CHR '':'' \<notin> set c \<and> ToLower ul a \<noteq> ''urn'' \<longrightarrow>
      ParseUrn ul (a @ '':'' @ b @ '':'' @ c) = Inl ErrMalformedUrnInvalidScheme) \<and>
   (length (Split s CHR '':'') \<noteq> 3 \<longrightarrow> ParseUrn ul s = Inl ErrMalformedUrn) \<and>
   (length (Split s CHR '':'') = 3 \<and> ToLower ul (Split s CHR '':'' ! 0) = ''urn'' \<longrightarrow>
      ParseUrn ul s = Inr \<lparr>Nid = Split s CHR '':'' ! 1, Nss = Split s CHR '':'' ! 2\<rparr>) \<and>
   (length (Split s CHR '':'') = 3 \<and> ToLower ul (Split s CHR '':'' ! 0) \<noteq> ''urn'' \<longrightarrow>
      ParseUrn ul s = Inl ErrMalformedUrnInvalidScheme)"
  by (intro conjI impI; (elim conjE)?) (simp_all add: ParseUrn_def Split_three Let_def)

theorem ParseUrn_three_segments_witness:
  "CHR '':'' \<notin> set ''URN'' \<and> CHR '':'' \<notin> set ''btih'' \<and> CHR '':'' \<notin> set ''a%20b'' \<and>
   ToLower id ''URN'' = ''urn'' \<and>
   ParseUrn id ''URN:btih:a%20b'' = Inr \<lparr>Nid = ''btih'', Nss = ''a%20b''\<rparr> \<and>
   ToLower id ''uri'' \<noteq> ''urn'' \<and>
   ParseUrn id ''uri:btih:a%20b'' = Inl ErrMalformedUrnInvalidScheme \<and>
   length (Split ''urn:a:b:c'' CHR '':'') \<noteq> 3 \<and>
   ParseUrn id ''urn:a:b:c'' = Inl ErrMalformedUrn \<and>
   length (Split ''urn:btih'' CHR '':'') \<noteq> 3 \<and>
   ParseUrn id ''urn:btih'' = Inl ErrMalformedUrn \<and>
   Split ''Urn:x:y'' CHR '':'' = [''Urn'', ''x'', ''y''] \<and>
   ParseUrn id ''Urn:x:y'' = Inr \<lparr>Nid = ''x'', Nss = ''y''\<rparr> \<and>
   Split ''nru:x:y'' CHR '':'' = [''nru'', ''x'', ''y''] \<and>
   ParseUrn id ''nru:x:y'' = Inl ErrMalformedUrnInvalidScheme"
proof -
  have l1: "ToLower id ''URN'' = ''urn''" "ToLower id ''Urn'' = ''urn''"
    by (simp_all add: eval_strings)
  have l2: "ToLower id ''uri'' \<noteq> ''urn''" "ToLower id ''nru'' \<noteq> ''urn''"
    by (simp_all add: eval_strings)
  show ?thesis
    using ParseUrn_three_segments
            [where a = "''URN''" and b = "''btih''" and c = "''a%20b''" and ul = id
               and s = "''urn:a:b:c''"]
          ParseUrn_three_segments
            [where a = "''uri''" and b = "''btih''" and c = "''a%20b''" and ul = id
               and s = "''urn:btih''"]
          ParseUrn_three_segments
            [where a = "''URN''" and b = "''btih''" and c = "''a%20b''" and ul = id
               and s = "''Urn:x:y''"]
          ParseUrn_three_segments
            [where a = "''URN''" and b = "''btih''" and c = "''a%20b''" and ul = id
               and s = "''nru:x:y''"]
          l1 l2
    by simp
qed

text \<open>
  C10. Rendering a Urn whose two parts hold no colon and parsing the result gives
  the Urn back.
\<close>

theorem ParseUrn_String:
  "CHR '':'' \<notin> set (Nid u) \<Longrightarrow> CHR '':'' \<notin> set (Nss u) \<Longrightarrow> ParseUrn ul (String u) = Inr u"
proof -
  assume n: "CHR '':'' \<notin> set (Nid u)" "CHR '':'' \<notin> set (Nss u)"
  have "Split (''urn'' @ CHR '':'' # Nid u @ CHR '':'' # Nss u) CHR '':'' = [''urn'', Nid u, Nss u]"
    using n by (intro Split_three) simp_all
  then show ?thesis
    by (simp add: ParseUrn_def String_def ToLower_urn)
qed

theorem ParseUrn_String_witness:
  "CHR '':'' \<notin> set (Nid \<lparr>Nid = ''btih'', Nss = ''abc''\<rparr>) \<and>
   CHR '':'' \<notin> set (Nss \<lparr>Nid = ''btih'', Nss = ''abc''\<rparr>) \<and>
   String \<lparr>Nid = ''btih'', Nss = ''abc''\<rparr> = ''urn:btih:abc'' \<and>
   ParseUrn id ''urn:btih:abc'' = Inr \<lparr>Nid = ''btih'', Nss = ''abc''\<rparr>"
  using ParseUrn_String [of "\<lparr>Nid = ''btih'', Nss = ''abc''\<rparr>" id]
  by (simp add: String_def)

section \<open>Properties of magnet\_link.go\<close>

lemmas eval_magnet =
  ParseMagnetLink_def ParseTorrentMagnetLink_def parseParameter_def
  checkIsMagnetLinkXTParameter_def appendTo_def zeroMagnetLink_def numRangeOf_def
  AsTorrent_def decodeBtih_def ParseUrn_def Let_def

subsection \<open>AsTorrent\<close>

lemma collectInfoHashs_no_btih:
  "\<forall>xt \<in> set xts. ToLower ul (Nid xt) \<noteq> ''btih'' \<Longrightarrow> collectInfoHashs ul hs xts = Inr hs"
  by (induction xts arbitrary: hs) auto

lemma collectInfoHashs_grows:
  "collectInfoHashs ul hs xts = Inr hs' \<Longrightarrow>
     length hs' = length hs + length (filter (\<lambda>xt. ToLower ul (Nid xt) = ''btih'') xts)"
  by (induction xts arbitrary: hs) (auto split: if_splits sum.splits)




lemma decodeBtih_error: "decodeBtih nss = Inl e \<Longrightarrow> \<exists>r. e = ErrMalformedMagnetLink r"
  by (auto simp: decodeBtih_def Let_def split: if_splits sum.splits)

lemma collectInfoHashs_error:
  "collectInfoHashs ul hs xts = Inl e \<Longrightarrow> \<exists>r. e = ErrMalformedMagnetLink r"
  by (induction xts arbitrary: hs) (auto split: sum.splits if_splits dest: decodeBtih_error)



lemma AsTorrent_error_kinds:
  "AsTorrent ul l = Inl e \<Longrightarrow> e = ErrWrongMagnetLinkType \<or> (\<exists>r. e = ErrMalformedMagnetLink r)"
  by (auto simp: AsTorrent_def split: sum.splits if_splits dest: collectInfoHashs_error)



text \<open>
  C4. If no exact topic has a namespace that lower-cases to \<open>btih\<close> (so also when
  there is no exact topic), \<open>AsTorrent\<close> fails with the wrong-type error; and when
  it succeeds, at least one hash was collected, from a \<open>btih\<close> topic.
\<close>

theorem AsTorrent_wrong_type:
  "((\<forall>xt \<in> set (Xt l). ToLower ul (Nid xt) \<noteq> ''btih'') \<longrightarrow>
      AsTorrent ul l = Inl ErrWrongMagnetLinkType) \<and>
   (AsTorrent ul l = Inr t \<longrightarrow>
      InfoHashs t \<noteq> [] \<and> (\<exists>xt \<in> set (Xt l). ToLower ul (Nid xt) = ''btih''))"
proof (intro conjI impI)
  assume "\<forall>xt \<in> set (Xt l). ToLower ul (Nid xt) \<noteq> ''btih''"
  then show "AsTorrent ul l = Inl ErrWrongMagnetLinkType"
    by (simp add: AsTorrent_def collectInfoHashs_no_btih)
next
  assume ok: "AsTorrent ul l = Inr t"
  then obtain hs where hs: "collectInfoHashs ul [] (Xt l) = Inr hs" "hs \<noteq> []" "InfoHashs t = hs"
    by (auto simp: AsTorrent_def split: sum.splits if_splits)
  then show "InfoHashs t \<noteq> []" by simp
  have "length hs = length (filter (\<lambda>xt. ToLower ul (Nid xt) = ''btih'') (Xt l))"
    using collectInfoHashs_grows [OF hs(1)] by simp
  then have "filter (\<lambda>xt. ToLower ul (Nid xt) = ''btih'') (Xt l) \<noteq> []"
    using hs(2) by auto
  then show "\<exists>xt \<in> set (Xt l). ToLower ul (Nid xt) = ''btih''"
    by (auto simp: filter_empty_conv)
qed

theorem AsTorrent_wrong_type_witness:
  "AsTorrent id zeroMagnetLink = Inl ErrWrongMagnetLinkType \<and>
   AsTorrent id (zeroMagnetLink\<lparr>Xt := [\<lparr>Nid = ''sha1'', Nss = ''abc''\<rparr>]\<rparr>) = Inl ErrWrongMagnetLinkType \<and>
   (\<exists>t. AsTorrent id (zeroMagnetLink\<lparr>Xt := [\<lparr>Nid = ''btih'', Nss = ''0123456789ABCDEF0123456789ABCDEF01234567''\<rparr>]\<rparr>) = Inr t \<and> InfoHashs t \<noteq> [])"
proof -
  have low: "ToLower id ''sha1'' \<noteq> ''btih''" by (simp add: eval_strings)
  have ok: "AsTorrent id (zeroMagnetLink\<lparr>Xt := [\<lparr>Nid = ''btih'', Nss = ''0123456789ABCDEF0123456789ABCDEF01234567''\<rparr>]\<rparr>) = 
     Inr \<lparr>Link = zeroMagnetLink\<lparr>Xt := [\<lparr>Nid = ''btih'', Nss = ''0123456789ABCDEF0123456789ABCDEF01234567''\<rparr>]\<rparr>,
          InfoHashs = [\<lparr>Type = HashSHA1, Value = [1, 35, 69, 103, 137, 171, 205, 239, 1, 35, 69, 103, 137, 171, 205, 239, 1, 35, 69, 103]\<rparr>]\<rparr>"
    by (simp add: AsTorrent_def decodeBtih_def eval_strings zeroMagnetLink_def fromHexChar_def ishex_def unhex_def isDigit_def)
  show ?thesis
    using AsTorrent_wrong_type [where l = zeroMagnetLink and ul = id
               and t = "\<lparr>Link = zeroMagnetLink, InfoHashs = []\<rparr>"]
          AsTorrent_wrong_type
            [where l = "zeroMagnetLink\<lparr>Xt := [\<lparr>Nid = ''sha1'', Nss = ''abc''\<rparr>]\<rparr>"
               and ul = id
               and t = "\<lparr>Link = zeroMagnetLink, InfoHashs = []\<rparr>"]
          AsTorrent_wrong_type
            [where l = "zeroMagnetLink\<lparr>Xt := [\<lparr>Nid = ''btih'', Nss = ''0123456789ABCDEF0123456789ABCDEF01234567''\<rparr>]\<rparr>"
               and ul = id
               and t = "\<lparr>Link = zeroMagnetLink\<lparr>Xt := [\<lparr>Nid = ''btih'', Nss = ''0123456789ABCDEF0123456789ABCDEF01234567''\<rparr>]\<rparr>,
          InfoHashs = [\<lparr>Type = HashSHA1, Value = [1, 35, 69, 103, 137, 171, 205, 239, 1, 35, 69, 103, 137, 171, 205, 239, 1, 35, 69, 103]\<rparr>]\<rparr>"]
          low ok
    by (simp add: zeroMagnetLink_def)
qed

subsection \<open>ParseMagnetLink\<close>

text \<open>
  C5. When \<open>url.Parse\<close> accepts the input and the scheme does not lower-case to
  \<open>magnet\<close>, \<open>ParseMagnetLink\<close> fails with the malformed-magnet-link error whose
  reason is "Invalid scheme", whatever the options and the order of the map.
\<close>

theorem ParseMagnetLink_invalid_scheme:
  "urlParse ul uri = Inr u \<and> ToLower ul (Scheme u) \<noteq> ''magnet'' \<longrightarrow>
     ParseMagnetLink ul order uri opts = Inl (ErrMalformedMagnetLink InvalidScheme)"
  by (simp add: ParseMagnetLink_def)

theorem ParseMagnetLink_invalid_scheme_witness:
  "urlParse id ''http://example.com'' =
     Inr \<lparr>Scheme = ''http'', Opaque = [], Host = ''example.com'', Path = [],
          ForceQuery = False, RawQuery = [], Fragment = []\<rparr> \<and>
   ToLower id ''http'' \<noteq> ''magnet'' \<and>
   ParseMagnetLink id id ''http://example.com'' [] = Inl (ErrMalformedMagnetLink InvalidScheme)"
proof -
  have p: "urlParse id ''http://example.com'' =
     Inr \<lparr>Scheme = ''http'', Opaque = [], Host = ''example.com'', Path = [],
          ForceQuery = False, RawQuery = [], Fragment = []\<rparr>"
    by (simp add: eval_url eval_strings)
  have l: "ToLower id ''http'' \<noteq> ''magnet''" by (simp add: eval_strings)
  show ?thesis
    using ParseMagnetLink_invalid_scheme
            [where ul = id and uri = "''http://example.com''" and order = id and opts = "[]"
               and u = "\<lparr>Scheme = ''http'', Opaque = [], Host = ''example.com'', Path = [],
                         ForceQuery = False, RawQuery = [], Fragment = []\<rparr>"]
          p l
    by simp
qed

text \<open>
  C9. \<open>ParseTorrentMagnetLink\<close> is parse-then-specialize: an error of
  \<open>ParseMagnetLink\<close> is returned as it is, and otherwise the result is that of
  \<open>AsTorrent\<close> on the parsed link, error or not.
\<close>

theorem ParseTorrentMagnetLink_is_composition:
  "ParseTorrentMagnetLink ul order uri opts = parseThenSpecialize ul order uri opts \<and>
   (ParseMagnetLink ul order uri opts = Inl e \<longrightarrow>
      ParseTorrentMagnetLink ul order uri opts = Inl e) \<and>
   (ParseMagnetLink ul order uri opts = Inr magnetLink \<longrightarrow>
      ParseTorrentMagnetLink ul order uri opts = AsTorrent ul magnetLink)"
  by (simp add: ParseTorrentMagnetLink_def parseThenSpecialize_def andThen_def)

theorem ParseTorrentMagnetLink_is_composition_witness:
  "ParseMagnetLink id id ''http://example.com'' [] = Inl (ErrMalformedMagnetLink InvalidScheme) \<and>
   ParseTorrentMagnetLink id id ''http://example.com'' [] = Inl (ErrMalformedMagnetLink InvalidScheme) \<and>
   ParseMagnetLink id id ''magnet:?xt=urn:sha1:abc'' [] =
     Inr (zeroMagnetLink\<lparr>Xt := [\<lparr>Nid = ''sha1'', Nss = ''abc''\<rparr>]\<rparr>) \<and>
   ParseTorrentMagnetLink id id ''magnet:?xt=urn:sha1:abc'' [] =
     AsTorrent id (zeroMagnetLink\<lparr>Xt := [\<lparr>Nid = ''sha1'', Nss = ''abc''\<rparr>]\<rparr>)"
proof -
  have a: "ParseMagnetLink id id ''http://example.com'' [] =
             Inl (ErrMalformedMagnetLink InvalidScheme)"
    by (simp add: eval_magnet eval_url eval_strings)
  have b: "ParseMagnetLink id id ''magnet:?xt=urn:sha1:abc'' [] =
             Inr (zeroMagnetLink\<lparr>Xt := [\<lparr>Nid = ''sha1'', Nss = ''abc''\<rparr>]\<rparr>)"
    by (simp add: eval_magnet eval_url eval_strings)
  have c: "ParseTorrentMagnetLink id id ''http://example.com'' [] =
             Inl (ErrMalformedMagnetLink InvalidScheme)"
    using ParseTorrentMagnetLink_is_composition
            [where ul = id and order = id and uri = "''http://example.com''" and opts = "[]"
               and e = "ErrMalformedMagnetLink InvalidScheme"] a
    by blast
  have d: "ParseTorrentMagnetLink id id ''magnet:?xt=urn:sha1:abc'' [] =
             AsTorrent id (zeroMagnetLink\<lparr>Xt := [\<lparr>Nid = ''sha1'', Nss = ''abc''\<rparr>]\<rparr>)"
    using ParseTorrentMagnetLink_is_composition
            [where ul = id and order = id and uri = "''magnet:?xt=urn:sha1:abc''" and opts = "[]"
               and magnetLink = "zeroMagnetLink\<lparr>Xt := [\<lparr>Nid = ''sha1'', Nss = ''abc''\<rparr>]\<rparr>"] b
    by blast
  show ?thesis using a b c d by blast
qed

subsection \<open>The loop over the query\<close>

lemma appendEach_Inr_acc:
  "appendEach f acc xs = Inr ys \<longleftrightarrow>
     (\<exists>zs. ys = acc @ zs \<and> list_all2 (\<lambda>x y. f x = Inr y) xs zs)"
proof (induction xs arbitrary: acc)
  case Nil
  then show ?case by auto
next
  case (Cons x xs)
  show ?case
  proof (cases "f x")
    case (Inl e)
    then show ?thesis by (simp add: list_all2_Cons1)
  next
    case (Inr y)
    then show ?thesis
      using Cons.IH [of "acc @ [y]"] by (auto simp: list_all2_Cons1)
  qed
qed

lemma appendEach_Inr:
  "appendEach f [] xs = Inr ys \<longleftrightarrow> list_all2 (\<lambda>x y. f x = Inr y) xs ys"
  by (simp add: appendEach_Inr_acc)

lemma appendEach_isl:
  "isl (appendEach f acc xs) \<longleftrightarrow> (\<exists>x \<in> set xs. isl (f x))"
  by (induction xs arbitrary: acc) (auto split: sum.splits)

lemma parseParameter_error_case:
  "case parseParameter ul option ml kv of
     Inl e \<Rightarrow> \<exists>r. e = ErrMalformedMagnetLink r
   | Inr _ \<Rightarrow> True"
  by (simp add: parseParameter_def Let_def split: sum.splits)

lemma parseParameter_error:
  "parseParameter ul option ml kv = Inl e \<Longrightarrow> \<exists>r. e = ErrMalformedMagnetLink r"
  using parseParameter_error_case [of ul option ml kv] by simp

lemma parseParameter_isl_indep:
  "isl (parseParameter ul option ml kv) = isl (parseParameter ul option ml' kv)"
  by (simp add: parseParameter_def Let_def if_distrib [of isl] sum.case_eq_if
        appendEach_isl split del: if_split cong: if_cong)

lemma parseParameters_error:
  "parseParameters ul option ml q = Inl e \<Longrightarrow> \<exists>r. e = ErrMalformedMagnetLink r"
  by (induction q arbitrary: ml) (auto split: sum.splits dest: parseParameter_error)

lemma parseParameters_isl:
  "isl (parseParameters ul option ml q) \<longleftrightarrow>
     (\<exists>kv \<in> set q. isl (parseParameter ul option zeroMagnetLink kv))"
proof (induction q arbitrary: ml)
  case Nil
  then show ?case by simp
next
  case (Cons kv q)
  show ?case
    using Cons.IH parseParameter_isl_indep [of ul option ml kv zeroMagnetLink]
    by (cases "parseParameter ul option ml kv") auto
qed



lemma not_xt_tr: "\<not> checkIsMagnetLinkXTParameter ''tr''"
  by (simp add: checkIsMagnetLinkXTParameter_def HasPrefix_def)

lemma parseParameter_tr:
  "ToLower ul k = ''tr'' \<Longrightarrow>
     parseParameter ul option ml (k, vs) =
       (case appendEach QueryUnescape (Tr ml) vs of
          Inl err \<Rightarrow> Inl (ErrMalformedMagnetLink (InvalidTr err))
        | Inr tr \<Rightarrow> Inr (ml\<lparr>Tr := tr\<rparr>))"
  by (simp add: parseParameter_def not_xt_tr)

lemma parseParameter_Tr_other:
  "ToLower ul (fst kv) \<noteq> ''tr'' \<Longrightarrow>
     case parseParameter ul option ml kv of
       Inl _ \<Rightarrow> True
     | Inr ml' \<Rightarrow> Tr ml' = Tr ml"
  by (simp add: parseParameter_def Let_def split: sum.splits)

text \<open>A part of the link that no step of the loop changes is the same after the loop.\<close>

lemma parseParameters_unchanged:
  assumes "parseParameters ul option ml0 q = Inr ml"
    and "\<And>x m m'. x \<in> set q \<Longrightarrow> parseParameter ul option m x = Inr m' \<Longrightarrow> g m' = g m"
  shows "g ml = g ml0"
  using assms
proof (induction q arbitrary: ml0)
  case Nil
  then show ?case by simp
next
  case (Cons x q)
  from Cons.prems(1) obtain m1 where m1: "parseParameter ul option ml0 x = Inr m1"
    and rest: "parseParameters ul option m1 q = Inr ml"
    by (auto split: sum.splits)
  have "g ml = g m1"
    by (rule Cons.IH [OF rest]) (use Cons.prems(2) in auto)
  moreover have "g m1 = g ml0" using Cons.prems(2) [of x ml0 m1] m1 by simp
  ultimately show ?case by simp
qed

text \<open>
  A part of the link that exactly one entry of the query changes, in a way \<open>h\<close>
  that does not depend on the rest of the link, has been changed by \<open>h\<close> once,
  wherever the entry stands in the order.
\<close>

lemma parseParameters_only_one:
  assumes "parseParameters ul option ml0 q = Inr ml" and "distinct q" and "kv \<in> set q"
    and others: "\<And>x m m'. x \<in> set q \<Longrightarrow> x \<noteq> kv \<Longrightarrow>
                   parseParameter ul option m x = Inr m' \<Longrightarrow> g m' = g m"
    and at_kv: "\<And>m m'. parseParameter ul option m kv = Inr m' \<Longrightarrow> g m' = h (g m)"
  shows "g ml = h (g ml0)"
  using assms(1-4)
proof (induction q arbitrary: ml0)
  case Nil
  then show ?case by simp
next
  case (Cons x q)
  from Cons.prems(1) obtain m1 where m1: "parseParameter ul option ml0 x = Inr m1"
    and rest: "parseParameters ul option m1 q = Inr ml"
    by (auto split: sum.splits)
  show ?case
  proof (cases "x = kv")
    case True
    then have "kv \<notin> set q" using Cons.prems(2) by simp
    then have "g ml = g m1"
      by (intro parseParameters_unchanged [OF rest]) (use Cons.prems(4) in auto)
    moreover have "g m1 = h (g ml0)" using at_kv [of ml0 m1] m1 True by simp
    ultimately show ?thesis by simp
  next
    case False
    then have "kv \<in> set q" using Cons.prems(3) by simp
    moreover have "distinct q" using Cons.prems(2) by simp
    ultimately have "g ml = h (g m1)"
      by (intro Cons.IH [OF rest]) (use Cons.prems(4) in auto)
    moreover have "g m1 = g ml0" using Cons.prems(4) [of x ml0 m1] m1 False by simp
    ultimately show ?thesis by simp
  qed
qed

lemma addValue_keys:
  "map fst (addValue m k v) = (if k \<in> set (map fst m) then map fst m else map fst m @ [k])"
  by (induction m k v rule: addValue.induct) auto

lemma parseQuery_distinct:
  "distinct (map fst m) \<Longrightarrow> distinct (map fst (parseQuery m ps))"
proof (induction m ps rule: parseQuery.induct)
  case (1 m)
  then show ?case by simp
next
  case (2 m piece query)
  then show ?case
    by (auto simp: addValue_keys split: sum.splits simp del: set_map)
qed

lemma Query_distinct: "distinct (map fst (Query u))"
  by (simp add: Query_def parseQuery_distinct)

lemma validOrder_set: "validOrder order \<Longrightarrow> set (order q) = set q"
  by (metis validOrder_def mset_eq_setD)

lemma validOrder_distinct: "validOrder order \<Longrightarrow> distinct (order q) = distinct q"
  by (metis validOrder_def mset_eq_imp_distinct_iff)


lemma order_one: "validOrder order \<Longrightarrow> order [a] = [a]"
proof -
  assume "validOrder order"
  then have "mset (order [a]) = mset [a]" unfolding validOrder_def by blast
  then show ?thesis by simp
qed

lemma order_two: "validOrder order \<Longrightarrow> order [a, b] = [a, b] \<or> order [a, b] = [b, a]"
proof -
  assume "validOrder order"
  then have m: "mset (order [a, b]) = mset [a, b]" unfolding validOrder_def by blast
  have "length (order [a, b]) = 2"
    using mset_eq_length [OF m] by simp
  then obtain x y where xs: "order [a, b] = [x, y]"
    by (auto simp: length_Suc_conv numeral_2_eq_2)
  with m have "{#x, y#} = {#a, b#}" by simp
  then show ?thesis using xs by (auto simp: add_eq_conv_ex)
qed

lemma ParseMagnetLink_magnet:
  "urlParse ul uri = Inr u \<Longrightarrow> ToLower ul (Scheme u) = ''magnet'' \<Longrightarrow>
     ParseMagnetLink ul order uri opts =
       parseParameters ul (applyOptions \<lparr>Strict = False\<rparr> opts) zeroMagnetLink (order (Query u))"
  by (simp add: ParseMagnetLink_def)


lemma list_all2_Inr_map:
  "list_all2 (\<lambda>v t. f v = Inr t) vs ts \<Longrightarrow> ts = map (projr \<circ> f) vs"
  by (induction vs ts rule: list_all2_induct) auto

lemma distinct_keys_entry:
  "distinct (map fst q) \<Longrightarrow> (k, vs) \<in> set q \<Longrightarrow> x \<in> set q \<Longrightarrow> x \<noteq> (k, vs) \<Longrightarrow> fst x \<noteq> k"
  by (metis eq_key_imp_eq_value prod.collapse)

text \<open>
  When one key of the query lower-cases to \<open>tr\<close>, the trackers of a parsed link are
  those it started with and then the values of that key, each unescaped once more.
\<close>

lemma parseParameters_Tr:
  assumes run: "parseParameters ul option ml0 q = Inr ml"
    and d: "distinct (map fst q)"
    and mem: "(k, vs) \<in> set q"
    and k: "ToLower ul k = ''tr''"
    and uniq: "\<forall>k' \<in> fst ` set q. k' \<noteq> k \<longrightarrow> ToLower ul k' \<noteq> ''tr''"
  shows "\<exists>ts. Tr ml = Tr ml0 @ ts \<and> list_all2 (\<lambda>v t. QueryUnescape v = Inr t) vs ts"
proof -
  let ?h = "\<lambda>t. t @ map (projr \<circ> QueryUnescape) vs"
  have dq: "distinct q" using d by (simp add: distinct_map)
  have "Tr ml = ?h (Tr ml0)"
  proof (rule parseParameters_only_one [OF run dq mem, where g = Tr and h = ?h])
    fix x m m'
    assume x: "x \<in> set q" "x \<noteq> (k, vs)" and step: "parseParameter ul option m x = Inr m'"
    have "fst x \<noteq> k" using distinct_keys_entry [OF d mem x] .
    then have "ToLower ul (fst x) \<noteq> ''tr''" using uniq x(1) by auto
    then show "Tr m' = Tr m"
      using parseParameter_Tr_other [where ul = ul and kv = x and option = option and ml = m] step
      by simp
  next
    fix m m'
    assume step: "parseParameter ul option m (k, vs) = Inr m'"
    then obtain ts where "Tr m' = Tr m @ ts" "list_all2 (\<lambda>v t. QueryUnescape v = Inr t) vs ts"
      using k by (auto simp: parseParameter_tr appendEach_Inr_acc split: sum.splits)
    then show "Tr m' = Tr m @ map (projr \<circ> QueryUnescape) vs"
      using list_all2_Inr_map by blast
  qed
  moreover have "list_all2 (\<lambda>v t. QueryUnescape v = Inr t) vs (map (projr \<circ> QueryUnescape) vs)"
  proof -
    have "\<not> isl (parseParameters ul option zeroMagnetLink q)"
      using run parseParameters_isl [of ul option ml0 q] parseParameters_isl [of ul option zeroMagnetLink q]
      by simp
    then have "\<not> isl (parseParameter ul option zeroMagnetLink (k, vs))"
      using parseParameters_isl mem by blast
    then have "\<forall>v \<in> set vs. \<not> isl (QueryUnescape v)"
      using k by (auto simp: parseParameter_tr appendEach_isl sum.case_eq_if split: if_splits)
    then show ?thesis by (induction vs) (auto simp: isl_def)
  qed
  ultimately show ?thesis by blast
qed

lemma example_dn_tr:
  "urlParse ul ''magnet:?dn=Test&tr=http%3A%2F%2Ftracker.example%2Fannounce'' =
     Inr \<lparr>Scheme = ''magnet'', Opaque = [], Host = [], Path = [], ForceQuery = False,
          RawQuery = ''dn=Test&tr=http%3A%2F%2Ftracker.example%2Fannounce'', Fragment = []\<rparr>"
  "Query \<lparr>Scheme = ''magnet'', Opaque = [], Host = [], Path = [], ForceQuery = False,
          RawQuery = ''dn=Test&tr=http%3A%2F%2Ftracker.example%2Fannounce'', Fragment = []\<rparr> =
     [(''dn'', [''Test'']), (''tr'', [''http://tracker.example/announce''])]"
  by (simp_all add: eval_url eval_strings)

lemma example_tr_twice:
  "urlParse ul ''magnet:?tr=%2541'' =
     Inr \<lparr>Scheme = ''magnet'', Opaque = [], Host = [], Path = [], ForceQuery = False,
          RawQuery = ''tr=%2541'', Fragment = []\<rparr>"
  "Query \<lparr>Scheme = ''magnet'', Opaque = [], Host = [], Path = [], ForceQuery = False,
          RawQuery = ''tr=%2541'', Fragment = []\<rparr> = [(''tr'', [''%41''])]"
  "urlParse ul ''magnet:?tr=%25zz'' =
     Inr \<lparr>Scheme = ''magnet'', Opaque = [], Host = [], Path = [], ForceQuery = False,
          RawQuery = ''tr=%25zz'', Fragment = []\<rparr>"
  "Query \<lparr>Scheme = ''magnet'', Opaque = [], Host = [], Path = [], ForceQuery = False,
          RawQuery = ''tr=%25zz'', Fragment = []\<rparr> = [(''tr'', [''%zz''])]"
  by (simp_all add: eval_url eval_strings)

lemma ToLower_magnet: "ToLower ul ''magnet'' = ''magnet''"
  by (simp add: eval_strings)

lemma step_dn:
  "parseParameter ul option ml (''dn'', vs) = Inr (ml\<lparr>Dn := Dn ml @ vs\<rparr>)"
  by (simp add: parseParameter_def eval_strings)

lemma step_tr:
  "parseParameter ul option ml (''tr'', vs) =
     (case appendEach QueryUnescape (Tr ml) vs of
        Inl err \<Rightarrow> Inl (ErrMalformedMagnetLink (InvalidTr err))
      | Inr tr \<Rightarrow> Inr (ml\<lparr>Tr := tr\<rparr>))"
  by (rule parseParameter_tr) (simp add: eval_strings)

lemma example_runs:
  assumes valid: "validOrder order"
  shows "ParseMagnetLink ul order
           ''magnet:?dn=Test&tr=http%3A%2F%2Ftracker.example%2Fannounce'' opts =
         parseParameters ul (applyOptions \<lparr>Strict = False\<rparr> opts) zeroMagnetLink
           (order [(''dn'', [''Test'']), (''tr'', [''http://tracker.example/announce''])])"
    and "ParseMagnetLink ul order ''magnet:?tr=%2541'' opts =
         parseParameters ul (applyOptions \<lparr>Strict = False\<rparr> opts) zeroMagnetLink
           [(''tr'', [''%41''])]"
    and "ParseMagnetLink ul order ''magnet:?tr=%25zz'' opts =
         parseParameters ul (applyOptions \<lparr>Strict = False\<rparr> opts) zeroMagnetLink
           [(''tr'', [''%zz''])]"
  by (simp_all add: ParseMagnetLink_def example_dn_tr example_tr_twice ToLower_magnet
        order_one [OF valid] Let_def del: parseParameters.simps)

lemma example_unescapes:
  "QueryUnescape ''http://tracker.example/announce'' = Inr ''http://tracker.example/announce''"
  "QueryUnescape ''%41'' = Inr ''A''"
  "QueryUnescape ''%zz'' = Inl (EscapeError ''%zz'')"
  by (simp_all add: eval_url ord_def char_of_eq_iff)



text \<open>
  C8. Whatever the order in which the map is visited: the link
  \<open>magnet:?dn=Test&tr=http%3A%2F%2Ftracker.example%2Fannounce\<close> parses, with the
  display names \<open>["Test"]\<close> and the trackers \<open>["http://tracker.example/announce"]\<close>.
  A tracker is the query value, which the query decomposition has unescaped once,
  unescaped once more: \<open>tr=%2541\<close> gives the tracker \<open>A\<close>, and \<open>tr=%25zz\<close>, whose
  value \<open>%zz\<close> does not unescape, fails with the malformed-magnet-link error
  ("Invalid tr"). In general, for a key that lower-cases to \<open>tr\<close>: a value that does
  not unescape makes the whole parse fail with a malformed-magnet-link error, and
  when the parse succeeds and no other key lower-cases to \<open>tr\<close>, the trackers are
  the values of the key, each unescaped, in their order.
\<close>

theorem ParseMagnetLink_trackers:
  "validOrder order \<longrightarrow>
     (\<exists>ml. ParseMagnetLink ul order
              ''magnet:?dn=Test&tr=http%3A%2F%2Ftracker.example%2Fannounce'' opts = Inr ml \<and>
           Dn ml = [''Test''] \<and> Tr ml = [''http://tracker.example/announce'']) \<and>
     (\<exists>ml. ParseMagnetLink ul order ''magnet:?tr=%2541'' opts = Inr ml \<and> Tr ml = [''A'']) \<and>
     ParseMagnetLink ul order ''magnet:?tr=%25zz'' opts =
       Inl (ErrMalformedMagnetLink (InvalidTr (EscapeError ''%zz''))) \<and>
     (urlParse ul uri = Inr u \<and> ToLower ul (Scheme u) = ''magnet'' \<and>
      (k, vs) \<in> set (Query u) \<and> ToLower ul k = ''tr'' \<longrightarrow>
        ((\<exists>v \<in> set vs. isl (QueryUnescape v)) \<longrightarrow>
           (\<exists>r. ParseMagnetLink ul order uri opts = Inl (ErrMalformedMagnetLink r))) \<and>
        (ParseMagnetLink ul order uri opts = Inr ml \<and>
         (\<forall>k' \<in> fst ` set (Query u). k' \<noteq> k \<longrightarrow> ToLower ul k' \<noteq> ''tr'') \<longrightarrow>
           list_all2 (\<lambda>v t. QueryUnescape v = Inr t) vs (Tr ml)))"
proof (intro impI conjI)
  assume valid: "validOrder order"
  let ?a = "(''dn'', [''Test''])" and ?b = "(''tr'', [''http://tracker.example/announce''])"
  from order_two [OF valid, of ?a ?b]
  show "\<exists>ml. ParseMagnetLink ul order
              ''magnet:?dn=Test&tr=http%3A%2F%2Ftracker.example%2Fannounce'' opts = Inr ml \<and>
           Dn ml = [''Test''] \<and> Tr ml = [''http://tracker.example/announce'']"
    by (auto simp: example_runs(1) [OF valid] step_dn step_tr example_unescapes zeroMagnetLink_def)
  show "\<exists>ml. ParseMagnetLink ul order ''magnet:?tr=%2541'' opts = Inr ml \<and> Tr ml = [''A'']"
    by (simp add: example_runs(2) [OF valid] step_tr example_unescapes zeroMagnetLink_def)
  show "ParseMagnetLink ul order ''magnet:?tr=%25zz'' opts =
       Inl (ErrMalformedMagnetLink (InvalidTr (EscapeError ''%zz'')))"
    by (simp add: example_runs(3) [OF valid] step_tr example_unescapes)
next
  assume valid: "validOrder order"
    and h: "urlParse ul uri = Inr u \<and> ToLower ul (Scheme u) = ''magnet'' \<and>
      (k, vs) \<in> set (Query u) \<and> ToLower ul k = ''tr''"
    and bad: "\<exists>v \<in> set vs. isl (QueryUnescape v)"
  let ?option = "applyOptions \<lparr>Strict = False\<rparr> opts"
  have run: "ParseMagnetLink ul order uri opts =
               parseParameters ul ?option zeroMagnetLink (order (Query u))"
    using h ParseMagnetLink_magnet by blast
  have "isl (parseParameter ul ?option zeroMagnetLink (k, vs))"
    using h bad by (simp add: parseParameter_tr appendEach_isl sum.case_eq_if)
  moreover have "(k, vs) \<in> set (order (Query u))" using h validOrder_set [OF valid] by simp
  ultimately have "isl (parseParameters ul ?option zeroMagnetLink (order (Query u)))"
    using parseParameters_isl by blast
  then obtain e where "parseParameters ul ?option zeroMagnetLink (order (Query u)) = Inl e"
    by (cases "parseParameters ul ?option zeroMagnetLink (order (Query u))") auto
  then show "\<exists>r. ParseMagnetLink ul order uri opts = Inl (ErrMalformedMagnetLink r)"
    using parseParameters_error run by fastforce
next
  assume valid: "validOrder order"
    and h: "urlParse ul uri = Inr u \<and> ToLower ul (Scheme u) = ''magnet'' \<and>
      (k, vs) \<in> set (Query u) \<and> ToLower ul k = ''tr''"
    and ok: "ParseMagnetLink ul order uri opts = Inr ml \<and>
         (\<forall>k' \<in> fst ` set (Query u). k' \<noteq> k \<longrightarrow> ToLower ul k' \<noteq> ''tr'')"
  let ?option = "applyOptions \<lparr>Strict = False\<rparr> opts"
  let ?q = "order (Query u)"
  have run: "parseParameters ul ?option zeroMagnetLink ?q = Inr ml"
    using h ok ParseMagnetLink_magnet [of ul uri u order opts] by simp
  have d: "distinct (map fst ?q)"
    using Query_distinct [of u] valid
    by (metis validOrder_def mset_map mset_eq_imp_distinct_iff)
  have mem: "(k, vs) \<in> set ?q" using h validOrder_set [OF valid] by simp
  have uniq: "\<forall>k' \<in> fst ` set ?q. k' \<noteq> k \<longrightarrow> ToLower ul k' \<noteq> ''tr''"
    using ok validOrder_set [OF valid] by simp
  from parseParameters_Tr [OF run d mem _ uniq] h
  show "list_all2 (\<lambda>v t. QueryUnescape v = Inr t) vs (Tr ml)"
    by (auto simp: zeroMagnetLink_def)
qed


theorem ParseMagnetLink_trackers_witness:
  "validOrder id \<and>
   (\<exists>ml. ParseMagnetLink id id
            ''magnet:?dn=Test&tr=http%3A%2F%2Ftracker.example%2Fannounce'' [] = Inr ml \<and>
         Dn ml = [''Test''] \<and> Tr ml = [''http://tracker.example/announce'']) \<and>
   (\<exists>ml. ParseMagnetLink id id ''magnet:?tr=%2541'' [] = Inr ml \<and> Tr ml = [''A'']) \<and>
   ParseMagnetLink id id ''magnet:?tr=%25zz'' [] =
     Inl (ErrMalformedMagnetLink (InvalidTr (EscapeError ''%zz''))) \<and>
   urlParse id ''magnet:?TR=%2541'' =
     Inr \<lparr>Scheme = ''magnet'', Opaque = [], Host = [], Path = [], ForceQuery = False,
          RawQuery = ''TR=%2541'', Fragment = []\<rparr> \<and>
   Query \<lparr>Scheme = ''magnet'', Opaque = [], Host = [], Path = [], ForceQuery = False,
          RawQuery = ''TR=%2541'', Fragment = []\<rparr> = [(''TR'', [''%41''])] \<and>
   ToLower id ''TR'' = ''tr'' \<and>
   (\<exists>ml. ParseMagnetLink id id ''magnet:?TR=%2541'' [] = Inr ml \<and>
         list_all2 (\<lambda>v t. QueryUnescape v = Inr t) [''%41''] (Tr ml)) \<and>
   urlParse id ''magnet:?TR=%25zz'' =
     Inr \<lparr>Scheme = ''magnet'', Opaque = [], Host = [], Path = [], ForceQuery = False,
          RawQuery = ''TR=%25zz'', Fragment = []\<rparr> \<and>
   Query \<lparr>Scheme = ''magnet'', Opaque = [], Host = [], Path = [], ForceQuery = False,
          RawQuery = ''TR=%25zz'', Fragment = []\<rparr> = [(''TR'', [''%zz''])] \<and>
   isl (QueryUnescape ''%zz'') \<and>
   (\<exists>r. ParseMagnetLink id id ''magnet:?TR=%25zz'' [] = Inl (ErrMalformedMagnetLink r))"
proof -
  let ?u0 = "\<lparr>Scheme = ''magnet'', Opaque = [], Host = [], Path = [], ForceQuery = False,
          RawQuery = ''TR=%2541'', Fragment = []\<rparr>"
  let ?u1 = "\<lparr>Scheme = ''magnet'', Opaque = [], Host = [], Path = [], ForceQuery = False,
          RawQuery = ''TR=%25zz'', Fragment = []\<rparr>"
  have v: "validOrder id" by (simp add: validOrder_def)
  have p0: "urlParse id ''magnet:?TR=%2541'' = Inr ?u0" and q0: "Query ?u0 = [(''TR'', [''%41''])]"
    and p1: "urlParse id ''magnet:?TR=%25zz'' = Inr ?u1" and q1: "Query ?u1 = [(''TR'', [''%zz''])]"
    and low: "ToLower id ''TR'' = ''tr''"
    by (simp_all add: eval_url eval_strings)
  have bad: "isl (QueryUnescape ''%zz'')" by (simp add: example_unescapes)
  have ok0: "ParseMagnetLink id id ''magnet:?TR=%2541'' [] = Inr (zeroMagnetLink\<lparr>Tr := [''A'']\<rparr>)"
    by (simp add: ParseMagnetLink_def p0 q0 ToLower_magnet parseParameter_tr low example_unescapes
          zeroMagnetLink_def)
  have examples:
    "(\<exists>ml. ParseMagnetLink id id
            ''magnet:?dn=Test&tr=http%3A%2F%2Ftracker.example%2Fannounce'' [] = Inr ml \<and>
         Dn ml = [''Test''] \<and> Tr ml = [''http://tracker.example/announce'']) \<and>
     (\<exists>ml. ParseMagnetLink id id ''magnet:?tr=%2541'' [] = Inr ml \<and> Tr ml = [''A'']) \<and>
     ParseMagnetLink id id ''magnet:?tr=%25zz'' [] =
       Inl (ErrMalformedMagnetLink (InvalidTr (EscapeError ''%zz'')))"
    using ParseMagnetLink_trackers
            [where order = id and ul = id and opts = "[]" and uri = "''magnet:?TR=%2541''"
               and u = ?u0 and k = "''TR''" and vs = "[''%41'']"
               and ml = "zeroMagnetLink\<lparr>Tr := [''A'']\<rparr>"] v
    by blast
  have general0: "list_all2 (\<lambda>v t. QueryUnescape v = Inr t) [''%41''] (Tr (zeroMagnetLink\<lparr>Tr := [''A'']\<rparr>))"
    using ParseMagnetLink_trackers
            [where order = id and ul = id and opts = "[]" and uri = "''magnet:?TR=%2541''"
               and u = ?u0 and k = "''TR''" and vs = "[''%41'']"
               and ml = "zeroMagnetLink\<lparr>Tr := [''A'']\<rparr>"] v p0 q0 low ok0
    by (simp add: ToLower_magnet)
  have general1: "\<exists>r. ParseMagnetLink id id ''magnet:?TR=%25zz'' [] = Inl (ErrMalformedMagnetLink r)"
    using ParseMagnetLink_trackers
            [where order = id and ul = id and opts = "[]" and uri = "''magnet:?TR=%25zz''"
               and u = ?u1 and k = "''TR''" and vs = "[''%zz'']"
               and ml = zeroMagnetLink] v p1 q1 low bad
    by (simp add: ToLower_magnet)
  show ?thesis
    using v examples p0 q0 low ok0 general0 p1 q1 bad general1 by blast
qed






end
